theory Spec2Isabelle
  imports Main "HOL-Library.Multiset"
begin

section \<open>Data model\<close>

text \<open>
  Rows of the remote \<open>tasks\<close> and \<open>categories\<close> tables as the application holds them
  in memory (\<open>lib/supabase.ts\<close>, and the columns the components read and write).
  Identifiers are strings. A timestamp column is kept as the number of milliseconds that
  \<open>new Date(column).getTime()\<close> reads from it; a column that is \<open>null\<close> or
  absent is \<open>None\<close>.
\<close>

type_synonym timestamp = int

datatype priority = Low | Medium | High

record task =
  task_id :: string
  title :: string
  description :: "string option"
  completed :: bool
  due_date :: "timestamp option"
  reminder_date :: "timestamp option"
  priority :: "priority option"
  category_id :: "string option"
  user_id :: string
  created_at :: timestamp
  updated_at :: timestamp
  completed_at :: "timestamp option"

record category =
  cat_id :: string
  cat_name :: string
  cat_color :: string
  cat_description :: "string option"
  cat_user_id :: string

section \<open>Task List Controller: the derived view\<close>

datatype filter_status = Status_all | Status_pending | Status_completed

datatype sort_by = By_created_at | By_due_date | By_priority

subsection \<open>Strings\<close>

text \<open>
  \<open>String.prototype.toLowerCase\<close> is the engine's function, the Unicode lower-casing of
  a whole string. The view takes it as the parameter \<open>lower\<close>, so that what is proved of
  the view holds for the engine's function whatever it does beyond the ASCII letters.
  \<open>asciiLower\<close> is what it does on a string of ASCII characters: \<open>A\<close> to \<open>Z\<close> become
  \<open>a\<close> to \<open>z\<close> and every other character stays.
\<close>

definition lower_char :: "char \<Rightarrow> char" where
  "lower_char c =
     (let n = (of_char c :: nat) in if 65 \<le> n \<and> n \<le> 90 then char_of (n + 32) else c)"

definition asciiLower :: "string \<Rightarrow> string" where
  "asciiLower s = map lower_char s"


fun startsWith :: "string \<Rightarrow> string \<Rightarrow> bool" where
  "startsWith s [] = True"
| "startsWith [] (c # cs) = False"
| "startsWith (d # ds) (c # cs) = (d = c \<and> startsWith ds cs)"

text \<open>\<open>String.prototype.includes\<close>: the needle occurs at some position of the string.\<close>

fun str_includes :: "string \<Rightarrow> string \<Rightarrow> bool" where
  "str_includes [] needle = (needle = [])"
| "str_includes (d # ds) needle = (startsWith (d # ds) needle \<or> str_includes ds needle)"

subsection \<open>The filter callback\<close>

text \<open>
  The callback of \<open>tasks.filter\<close> in \<open>TaskList\<close>. An empty search term is falsy and
  skips the search test. \<open>task.description?.toLowerCase().includes(..)\<close> is
  \<open>undefined\<close> for a task without description, so its negation is true and only the
  title decides.
\<close>

definition filterTask ::
  "(string \<Rightarrow> string) \<Rightarrow> string \<Rightarrow> filter_status \<Rightarrow> task \<Rightarrow> bool" where
  "filterTask lower searchTerm filterStatus t =
     (if searchTerm \<noteq> [] \<and>
         \<not> str_includes (lower (title t)) (lower searchTerm) \<and>
         \<not> (case description t of
              None \<Rightarrow> False
            | Some d \<Rightarrow> str_includes (lower d) (lower searchTerm))
      then False
      else if filterStatus = Status_pending \<and> completed t then False
      else if filterStatus = Status_completed \<and> \<not> completed t then False
      else True)"

subsection \<open>The sort comparator\<close>

definition priorityOrder :: "priority \<Rightarrow> int" where
  "priorityOrder p = (case p of High \<Rightarrow> 3 | Medium \<Rightarrow> 2 | Low \<Rightarrow> 1)"

text \<open>
  The comparator of \<open>.sort\<close>. For a task without priority \<open>priorityOrder[x.priority]\<close>
  is \<open>undefined\<close> and the difference is \<open>NaN\<close>, which the sort reads as \<open>+0\<close>.
\<close>

definition compareTasks :: "sort_by \<Rightarrow> task \<Rightarrow> task \<Rightarrow> int" where
  "compareTasks sortBy a b =
     (case sortBy of
        By_due_date \<Rightarrow>
          (case (due_date a, due_date b) of
             (None, None) \<Rightarrow> 0
           | (None, Some tb) \<Rightarrow> 1
           | (Some ta, None) \<Rightarrow> - 1
           | (Some ta, Some tb) \<Rightarrow> ta - tb)
      | By_priority \<Rightarrow>
          (case (priority b, priority a) of
             (Some pb, Some pa) \<Rightarrow> priorityOrder pb - priorityOrder pa
           | _ \<Rightarrow> 0)
      | By_created_at \<Rightarrow> created_at b - created_at a)"

subsection \<open>Array.prototype.sort\<close>

text \<open>
  The sort is stable: elements that compare equal keep their order. For a comparator that
  is a consistent ordering this fixes the result, and inserting each element in front of
  the first element it does not come after computes it. For a comparator that is no
  consistent ordering (the priority comparator on a list with a task without priority)
  the order is the engine's own; there \<open>sortBy_cmp\<close> stands for the engine only on a
  list whose neighbours all compare equal, which any scan for sorted runs and any
  insertion leave as it is.
\<close>

fun insertBy :: "('a \<Rightarrow> 'a \<Rightarrow> int) \<Rightarrow> 'a \<Rightarrow> 'a list \<Rightarrow> 'a list" where
  "insertBy cmp x [] = [x]"
| "insertBy cmp x (y # ys) = (if cmp x y \<le> 0 then x # y # ys else y # insertBy cmp x ys)"

fun sortBy_cmp :: "('a \<Rightarrow> 'a \<Rightarrow> int) \<Rightarrow> 'a list \<Rightarrow> 'a list" where
  "sortBy_cmp cmp [] = []"
| "sortBy_cmp cmp (x # xs) = insertBy cmp x (sortBy_cmp cmp xs)"

definition filteredAndSortedTasks ::
  "(string \<Rightarrow> string) \<Rightarrow> task list \<Rightarrow> string \<Rightarrow> filter_status \<Rightarrow> sort_by \<Rightarrow> task list" where
  "filteredAndSortedTasks lower tasks searchTerm filterStatus sortBy =
     sortBy_cmp (compareTasks sortBy)
       (filter (filterTask lower searchTerm filterStatus) tasks)"

section \<open>Data Access Layer\<close>

text \<open>
  \<open>lib/database.ts\<close>. Every operation builds one request to the Remote Data Service
  and returns its \<open>{ data, error }\<close>. The service is not part of the repository: a
  table is the list of its rows, a request reads or writes the rows that pass all its
  \<open>eq\<close>/\<open>lte\<close> filters, and the service may refuse a request (\<open>fault\<close>: transport,
  session or row policy), which leaves the table as it is. The embedded \<open>categories\<close>
  object of a selected task row is not kept.
\<close>

datatype js_error = PostgrestError string string | Error string

record 'a dal_result =
  data :: "'a option"
  error :: "js_error option"

text \<open>
  \<open>.single()\<close>: the one returned row, or the error \<open>PGRST116\<close> when the request did not
  return exactly one row.
\<close>

definition single :: "'a list \<Rightarrow> 'a dal_result" where
  "single rows =
     (case rows of
        [r] \<Rightarrow> \<lparr>data = Some r, error = None\<rparr>
      | _ \<Rightarrow>
          \<lparr>data = None,
           error = Some (PostgrestError ''PGRST116''
             ''JSON object requested, multiple (or no) rows returned'')\<rparr>)"

subsection \<open>tasks.toggleComplete\<close>

text \<open>
  The object passed to \<open>.update\<close>: three columns, written by one request. The two
  \<open>new Date()\<close> of the object literal are two readings of the clock.
\<close>

record toggle_update =
  set_completed :: bool
  set_updated_at :: timestamp
  set_completed_at :: "timestamp option"

definition toggleComplete_update :: "bool \<Rightarrow> timestamp \<Rightarrow> timestamp \<Rightarrow> toggle_update" where
  "toggleComplete_update newCompleted now1 now2 =
     \<lparr>set_completed = newCompleted, set_updated_at = now1,
      set_completed_at = (if newCompleted then Some now2 else None)\<rparr>"

definition write_toggle :: "toggle_update \<Rightarrow> task \<Rightarrow> task" where
  "write_toggle u t =
     t\<lparr>completed := set_completed u, updated_at := set_updated_at u,
       completed_at := set_completed_at u\<rparr>"

definition toggleComplete ::
  "task list \<Rightarrow> js_error option \<Rightarrow> string \<Rightarrow> bool \<Rightarrow> string \<Rightarrow> timestamp \<Rightarrow> timestamp \<Rightarrow>
   task list \<times> task dal_result" where
  "toggleComplete table fault tid newCompleted userId now1 now2 =
     (case fault of
        Some e \<Rightarrow> (table, \<lparr>data = None, error = Some e\<rparr>)
      | None \<Rightarrow>
          (let u = toggleComplete_update newCompleted now1 now2;
               hit = (\<lambda>t. task_id t = tid \<and> user_id t = userId);
               r = single (map (write_toggle u) (filter hit table))
           in (if error r = None then map (\<lambda>t. if hit t then write_toggle u t else t) table
               else table, r)))"

subsection \<open>tasks.getUpcoming\<close>

text \<open>
  \<open>futureDate.setDate(futureDate.getDate() + days)\<close> moves the date by \<open>days\<close>
  calendar days of the local clock and keeps the local time of day: \<open>days\<close> times
  86400000 ms, less \<open>offsetChange\<close>, the local clock's offset from UTC at the new
  date minus its offset now (0 unless the offset changes in between, as at a change to
  or from daylight saving time). The parameter \<open>days\<close> defaults to 7.
\<close>

definition futureDate :: "timestamp \<Rightarrow> int \<Rightarrow> int \<Rightarrow> timestamp" where
  "futureDate now days offsetChange = now + days * 86400000 - offsetChange"

text \<open>\<open>.order('due_date', { ascending: true })\<close>; a row without due date comes last.\<close>

definition due_date_ascending :: "task \<Rightarrow> task \<Rightarrow> int" where
  "due_date_ascending a b =
     (case (due_date a, due_date b) of
        (Some ta, Some tb) \<Rightarrow> ta - tb
      | (Some ta, None) \<Rightarrow> - 1
      | (None, Some tb) \<Rightarrow> 1
      | (None, None) \<Rightarrow> 0)"

text \<open>
  The filters \<open>eq user_id\<close>, \<open>eq completed false\<close> and \<open>lte due_date futureDate\<close>; a
  row whose due date is null passes no \<open>lte\<close>.
\<close>

definition upcomingRow :: "string \<Rightarrow> timestamp \<Rightarrow> task \<Rightarrow> bool" where
  "upcomingRow userId limit t =
     (user_id t = userId \<and> completed t = False \<and>
      (case due_date t of None \<Rightarrow> False | Some d \<Rightarrow> d \<le> limit))"

definition getUpcoming ::
  "task list \<Rightarrow> js_error option \<Rightarrow> string \<Rightarrow> int option \<Rightarrow> timestamp \<Rightarrow> int \<Rightarrow>
   task list dal_result" where
  "getUpcoming table fault userId days now offsetChange =
     (case fault of
        Some e \<Rightarrow> \<lparr>data = None, error = Some e\<rparr>
      | None \<Rightarrow>
          \<lparr>data = Some (sortBy_cmp due_date_ascending
             (filter (upcomingRow userId
                (futureDate now (case days of None \<Rightarrow> 7 | Some d \<Rightarrow> d) offsetChange))
                table)),
           error = None\<rparr>)"

section \<open>Error handling\<close>

text \<open>\<open>lib/error-handler.ts\<close>.\<close>

datatype error_type =
  AUTHENTICATION | AUTHORIZATION | VALIDATION | NETWORK | DATABASE | NOT_FOUND | UNKNOWN

record app_error =
  err_type :: error_type
  message :: string
  originalError :: "js_error option"
  code :: "string option"
  details :: "(string \<times> string option) list"

definition ERROR_MESSAGES :: "error_type \<Rightarrow> string" where
  "ERROR_MESSAGES ty =
     (case ty of
        AUTHENTICATION \<Rightarrow> ''Please sign in to continue''
      | AUTHORIZATION \<Rightarrow>
          ''You don'' @ [CHR 0x27] @ ''t have permission to perform this action''
      | VALIDATION \<Rightarrow> ''Please check your input and try again''
      | NETWORK \<Rightarrow> ''Connection error. Please check your internet connection''
      | DATABASE \<Rightarrow> ''Something went wrong. Please try again later''
      | NOT_FOUND \<Rightarrow> ''The requested item could not be found''
      | UNKNOWN \<Rightarrow> ''An unexpected error occurred. Please try again'')"

text \<open>\<open>context || null\<close>: an absent or empty context is \<open>null\<close>.\<close>

definition context_details :: "string option \<Rightarrow> (string \<times> string option) list" where
  "context_details ctx = [(''context'', (if ctx = Some [] then None else ctx))]"

definition handleSupabaseError :: "js_error option \<Rightarrow> string option \<Rightarrow> app_error" where
  "handleSupabaseError err ctx =
     (case err of
        None \<Rightarrow>
          \<lparr>err_type = UNKNOWN, message = ERROR_MESSAGES UNKNOWN, originalError = None,
           code = None, details = []\<rparr>
      | Some (PostgrestError c m) \<Rightarrow>
          (if c = ''PGRST116'' then
             \<lparr>err_type = NOT_FOUND, message = ERROR_MESSAGES NOT_FOUND, originalError = err,
              code = Some c, details = []\<rparr>
           else if c = ''23505'' then
             \<lparr>err_type = VALIDATION, message = ''This item already exists'',
              originalError = err, code = Some c, details = []\<rparr>
           else if c = ''23503'' then
             \<lparr>err_type = VALIDATION,
              message = ''Cannot delete item that is being used elsewhere'',
              originalError = err, code = Some c, details = []\<rparr>
           else if c = ''42501'' then
             \<lparr>err_type = AUTHORIZATION, message = ERROR_MESSAGES AUTHORIZATION,
              originalError = err, code = Some c, details = []\<rparr>
           else
             \<lparr>err_type = DATABASE, message = ERROR_MESSAGES DATABASE, originalError = err,
              code = Some c, details = context_details ctx\<rparr>)
      | Some (Error m) \<Rightarrow>
          (if str_includes m ''fetch'' \<or> str_includes m ''network'' then
             \<lparr>err_type = NETWORK, message = ERROR_MESSAGES NETWORK, originalError = err,
              code = None, details = []\<rparr>
           else if str_includes m ''auth'' \<or> str_includes m ''token'' then
             \<lparr>err_type = AUTHENTICATION, message = ERROR_MESSAGES AUTHENTICATION,
              originalError = err, code = None, details = []\<rparr>
           else
             \<lparr>err_type = UNKNOWN, message = ERROR_MESSAGES UNKNOWN, originalError = err,
              code = None, details = context_details ctx\<rparr>))"

subsection \<open>validateRequiredFields\<close>

text \<open>
  A value read from a \<open>Record<string, string | number | boolean | null | undefined>\<close>;
  \<open>JObject\<close> is a function or an object, which is truthy and no string.
\<close>

datatype js_value =
  JString string | JNumber int | JBoolean bool | JNull | JUndefined | JObject

definition falsy :: "js_value \<Rightarrow> bool" where
  "falsy v =
     (case v of
        JString s \<Rightarrow> s = []
      | JNumber n \<Rightarrow> n = 0
      | JBoolean b \<Rightarrow> \<not> b
      | JNull \<Rightarrow> True
      | JUndefined \<Rightarrow> True
      | JObject \<Rightarrow> False)"

text \<open>
  \<open>data[field]\<close> on an object literal: its own value for the key, else what
  \<open>Object.prototype\<close> has under that name (a function or an object), else
  \<open>undefined\<close>.
\<close>

definition prototype_names :: "string list" where
  "prototype_names =
     [''constructor'', ''toString'', ''toLocaleString'', ''valueOf'', ''hasOwnProperty'',
      ''isPrototypeOf'', ''propertyIsEnumerable'', ''__proto__'', ''__defineGetter__'',
      ''__defineSetter__'', ''__lookupGetter__'', ''__lookupSetter__'']"

definition field_of :: "(string \<times> js_value) list \<Rightarrow> string \<Rightarrow> js_value" where
  "field_of obj k =
     (case map_of obj k of
        Some v \<Rightarrow> v
      | None \<Rightarrow> if k \<in> set prototype_names then JObject else JUndefined)"

text \<open>
  \<open>String.prototype.trim\<close> is the engine's function; the functions that call it take
  it as the parameter \<open>trim\<close>.
\<close>

fun join_comma :: "string list \<Rightarrow> string" where
  "join_comma [] = []"
| "join_comma [x] = x"
| "join_comma (x # y # ys) = x @ '', '' @ join_comma (y # ys)"

text \<open>
  \<open>validateRequiredFields(data, requiredFields)\<close>. The second parameter is
  \<open>undefined\<close> (\<open>None\<close>) in a call that passes one argument; \<open>requiredFields.filter\<close>
  then throws a \<open>TypeError\<close>.
\<close>

definition TypeError_filter :: js_error where
  "TypeError_filter =
     Error (''Cannot read properties of undefined (reading '' @ [CHR 0x27] @ ''filter'' @
       [CHR 0x27] @ '')'')"

definition validateRequiredFields ::
  "(string \<Rightarrow> string) \<Rightarrow> (string \<times> js_value) list \<Rightarrow> string list option \<Rightarrow>
   js_error + app_error option" where
  "validateRequiredFields trim obj requiredFields =
     (case requiredFields of
        None \<Rightarrow> Inl TypeError_filter
      | Some required \<Rightarrow>
          (let missingFields =
                 filter (\<lambda>field. falsy (field_of obj field) \<or>
                    (case field_of obj field of JString s \<Rightarrow> trim s = [] | _ \<Rightarrow> False)) required
           in if length missingFields > 0 then
                Inr (Some \<lparr>err_type = VALIDATION,
                  message = ''Please fill in all required fields: '' @ join_comma missingFields,
                  originalError = None, code = None,
                  details = [(''missingFields'', Some (join_comma missingFields))]\<rparr>)
              else Inr None))"

section \<open>Notifications and requests\<close>

text \<open>
  A call of the toast hook's success or error function, with its arguments (an argument
  that is \<open>undefined\<close> is \<open>None\<close>), and a request issued to the Data Access Layer. The
  handlers below return what they called, in order.
\<close>

datatype toast = ToastSuccess string "string option" | ToastError "string option" string

record task_data =
  td_title :: string
  td_description :: string
  td_category_id :: "string option"
  td_due_date :: "timestamp option"
  td_reminder_date :: "timestamp option"
  td_priority :: priority
  td_user_id :: string

datatype dal_call =
    Tasks_getAll string
  | Tasks_create task_data
  | Tasks_update string task_data string
  | Tasks_toggleComplete string bool string
  | Tasks_delete string string
  | Categories_getAll string
  | Categories_delete string string

text \<open>What an awaited request gives: the value it resolves to, or the error it throws.\<close>

datatype 'a outcome = Returned 'a | Threw js_error

section \<open>Task Form\<close>

text \<open>
  \<open>TaskForm\<close>. A \<open>datetime-local\<close> field is empty (falsy, \<open>None\<close>) or holds a date
  and time, kept as the milliseconds \<open>new Date(value)\<close> reads.
\<close>

record form_data =
  fd_title :: string
  fd_description :: string
  fd_category_id :: string
  fd_due_date :: "timestamp option"
  fd_reminder_date :: "timestamp option"
  fd_priority :: priority

text \<open>\<open>errors[key] = value\<close> on a \<open>Record<string, string>\<close>.\<close>

fun assign :: "string \<Rightarrow> string \<Rightarrow> (string \<times> string) list \<Rightarrow> (string \<times> string) list" where
  "assign k v [] = [(k, v)]"
| "assign k v ((k', v') # m) = (if k' = k then (k, v) # m else (k', v') # assign k v m)"

text \<open>
  \<open>Object.assign(errors, requiredFieldErrors)\<close>: nothing for \<open>null\<close>, else the keys
  the error object was built with (the \<open>details\<close> object kept as its text).
\<close>

definition assign_app_error :: "app_error option \<Rightarrow> (string \<times> string) list" where
  "assign_app_error r =
     (case r of
        None \<Rightarrow> []
      | Some e \<Rightarrow>
          [(''type'', ''VALIDATION''), (''message'', message e),
           (''details'',
            concat (map (\<lambda>(k, v). case v of None \<Rightarrow> [] | Some x \<Rightarrow> x) (details e)))])"

text \<open>
  \<open>validateForm\<close>: the errors it sets and whether there are none. It calls
  \<open>validateRequiredFields(requiredFields)\<close> with the object as the only argument,
  and a throw of that call leaves \<open>validateForm\<close>.
\<close>

definition validateForm ::
  "(string \<Rightarrow> string) \<Rightarrow> form_data \<Rightarrow> js_error + ((string \<times> string) list \<times> bool)" where
  "validateForm trim fd =
     (case validateRequiredFields trim [(''title'', JString (trim (fd_title fd)))] None of
        Inl e \<Rightarrow> Inl e
      | Inr requiredFieldErrors \<Rightarrow>
          (let errors0 = assign_app_error requiredFieldErrors;
               errors1 =
                 (case (fd_due_date fd, fd_reminder_date fd) of
                    (Some dueDate, Some reminderDate) \<Rightarrow>
                      if reminderDate > dueDate
                      then assign ''reminder_date''
                        ''Reminder date cannot be after due date'' errors0
                      else errors0
                  | _ \<Rightarrow> errors0);
               errors2 =
                 (if length (trim (fd_title fd)) > 255
                  then assign ''title'' ''Title must be less than 255 characters'' errors1
                  else errors1);
               errors3 =
                 (if length (fd_description fd) > 1000
                  then assign ''description''
                    ''Description must be less than 1000 characters'' errors2
                  else errors2)
           in Inr (errors3, length errors3 = 0)))"

text \<open>
  What one run of \<open>handleSubmit\<close> does: the requests it issues, the toasts it shows,
  the row it passes to \<open>onSave\<close> if it calls it, and the value it leaves in
  \<open>validationErrors\<close> (\<open>None\<close>: not written).
\<close>

record submit_result =
  requests :: "dal_call list"
  form_toasts :: "toast list"
  onSave :: "task option"
  validationErrors :: "(string \<times> string) list option"

definition taskData_of :: "(string \<Rightarrow> string) \<Rightarrow> form_data \<Rightarrow> string \<Rightarrow> task_data" where
  "taskData_of trim fd uid =
     \<lparr>td_title = trim (fd_title fd), td_description = trim (fd_description fd),
      td_category_id = (if fd_category_id fd = [] then None else Some (fd_category_id fd)),
      td_due_date = fd_due_date fd, td_reminder_date = fd_reminder_date fd,
      td_priority = fd_priority fd, td_user_id = uid\<rparr>"

text \<open>
  What \<open>handleSubmit\<close> does with the awaited \<open>{ data, error }\<close> of its request:
  \<open>onSave(result.data)\<close> is called when there is no error and a row, and never when
  the request throws.
\<close>

definition savedRow :: "task dal_result outcome \<Rightarrow> task option" where
  "savedRow res =
     (case res of
        Threw e \<Rightarrow> None
      | Returned r \<Rightarrow> (case error r of Some e \<Rightarrow> None | None \<Rightarrow> data r))"

text \<open>
  The toasts of the same three branches. \<open>AppError\<close> has no \<open>userMessage\<close>, so the
  first argument of the error toast is \<open>undefined\<close>.
\<close>

definition submitToasts :: "bool \<Rightarrow> string \<Rightarrow> task dal_result outcome \<Rightarrow> toast list" where
  "submitToasts editing ttl res =
     (let ctx = Some (if editing then ''Updating task'' else ''Creating task'') in
      case res of
        Threw e \<Rightarrow> [ToastError None (message (handleSupabaseError (Some e) ctx))]
      | Returned r \<Rightarrow>
          (case error r of
             Some e \<Rightarrow> [ToastError None (message (handleSupabaseError (Some e) ctx))]
           | None \<Rightarrow>
               (case data r of
                  None \<Rightarrow> []
                | Some row \<Rightarrow>
                    [ToastSuccess
                       (if editing then ''Task updated successfully''
                        else ''Task created successfully'')
                       (Some (''Task '' @ [CHR 0x22] @ ttl @ [CHR 0x22] @ '' has been '' @
                          (if editing then ''updated'' else ''created'')))])))"

text \<open>
  \<open>handleSubmit\<close> of the form that validates: \<open>existing\<close> is the \<open>task\<close> prop,
  \<open>res\<close> what the request gives if it is issued. \<open>validateForm()\<close> is called before
  the \<open>try\<close>, so what it throws leaves \<open>handleSubmit\<close> (\<open>Inl\<close>); before that
  call the handler has only cleared \<open>validationErrors\<close>.
\<close>

definition handleSubmit ::
  "(string \<Rightarrow> string) \<Rightarrow> form_data \<Rightarrow> task option \<Rightarrow> string option \<Rightarrow> bool \<Rightarrow>
   task dal_result outcome \<Rightarrow> js_error + submit_result" where
  "handleSubmit trim fd existing user isLoading res =
     (case user of
        None \<Rightarrow>
          Inr \<lparr>requests = [], form_toasts = [], onSave = None, validationErrors = None\<rparr>
      | Some uid \<Rightarrow>
          if isLoading then
            Inr \<lparr>requests = [], form_toasts = [], onSave = None, validationErrors = None\<rparr>
          else
            (case validateForm trim fd of
               Inl e \<Rightarrow> Inl e
             | Inr (errors, valid) \<Rightarrow>
                 if \<not> valid then
                   Inr \<lparr>requests = [],
                     form_toasts = [ToastError (Some ''Please fix the validation errors'')
                       ''Check the form fields and try again''],
                     onSave = None, validationErrors = Some errors\<rparr>
                 else
                   (let taskData = taskData_of trim fd uid;
                        request =
                          (case existing of
                             Some t \<Rightarrow> Tasks_update (task_id t) taskData uid
                           | None \<Rightarrow> Tasks_create taskData)
                    in Inr \<lparr>requests = [request],
                         form_toasts = submitToasts (existing \<noteq> None) (td_title taskData) res,
                         onSave = savedRow res, validationErrors = Some errors\<rparr>)))"

section \<open>Task Item and Task List Controller: actions\<close>

text \<open>
  \<open>TaskItem.handleToggleComplete\<close>: the request it issues and the call of
  \<open>onToggleComplete(task.id, !task.completed)\<close> it makes when the request returns no
  error. The returned row is not read.
\<close>

definition itemToggle ::
  "task \<Rightarrow> string option \<Rightarrow> bool \<Rightarrow> task dal_result outcome \<Rightarrow>
   dal_call list \<times> (string \<times> bool) option" where
  "itemToggle t user isUpdating res =
     (case user of
        None \<Rightarrow> ([], None)
      | Some uid \<Rightarrow>
          if isUpdating then ([], None)
          else
            ([Tasks_toggleComplete (task_id t) (\<not> completed t) uid],
             (case res of
                Threw e \<Rightarrow> None
              | Returned r \<Rightarrow>
                  if error r = None then Some (task_id t, \<not> completed t) else None)))"

text \<open>
  The state of \<open>TaskList\<close> that the reconciliation reads: the array and the task being
  edited. Each handler below is the array it leaves in \<open>tasks\<close>: the result of the
  updater it passes to \<open>setTasks\<close>, or the array as it was where the handler does not
  call \<open>setTasks\<close>. What a handler does after that call (toasts, closing the form) does
  not touch the array and is not part of the model.
\<close>

record task_list_state =
  tasks :: "task list"
  editingTask :: "task option"

definition handleTaskSave :: "task_list_state \<Rightarrow> task \<Rightarrow> task list" where
  "handleTaskSave s savedTask =
     (case editingTask s of
        Some e \<Rightarrow> map (\<lambda>t. if task_id t = task_id savedTask then savedTask else t) (tasks s)
      | None \<Rightarrow> savedTask # tasks s)"

definition handleTaskDelete ::
  "task_list_state \<Rightarrow> string option \<Rightarrow> string \<Rightarrow> js_error option outcome \<Rightarrow> task list" where
  "handleTaskDelete s user taskId res =
     (case user of
        None \<Rightarrow> tasks s
      | Some uid \<Rightarrow>
          (case res of
             Returned (Some e) \<Rightarrow> tasks s
           | Returned None \<Rightarrow> filter (\<lambda>t. task_id t \<noteq> taskId) (tasks s)
           | Threw e \<Rightarrow> tasks s))"

definition handleToggleComplete :: "task_list_state \<Rightarrow> string \<Rightarrow> bool \<Rightarrow> task list" where
  "handleToggleComplete s taskId newCompleted =
     map (\<lambda>t. if task_id t = taskId then t\<lparr>completed := newCompleted\<rparr> else t) (tasks s)"

text \<open>
  The four actions on the list, each with what its one request gave. The form calls
  \<open>onSave = handleTaskSave\<close>, the item \<open>onToggleComplete = handleToggleComplete\<close>
  and \<open>onDelete = handleTaskDelete\<close>; the form edits when \<open>editingTask\<close> is set and
  creates otherwise. \<open>perform\<close> is the array after the action.
\<close>

datatype action =
    Save "task dal_result outcome"
  | Toggle task "task dal_result outcome"
  | Delete string "js_error option outcome"

definition perform :: "string \<Rightarrow> task_list_state \<Rightarrow> action \<Rightarrow> task list" where
  "perform uid s a =
     (case a of
        Save res \<Rightarrow>
          (case savedRow res of
             Some row \<Rightarrow> handleTaskSave s row
           | None \<Rightarrow> tasks s)
      | Toggle t res \<Rightarrow>
          (case snd (itemToggle t (Some uid) False res) of
             Some (taskId, newCompleted) \<Rightarrow> handleToggleComplete s taskId newCompleted
           | None \<Rightarrow> tasks s)
      | Delete taskId res \<Rightarrow> handleTaskDelete s (Some uid) taskId res)"

text \<open>Success of an action: its request returned without error (and, for a save, a row).\<close>

definition succeeded :: "action \<Rightarrow> bool" where
  "succeeded a =
     (case a of
        Save res \<Rightarrow>
          (case res of Returned r \<Rightarrow> error r = None \<and> data r \<noteq> None | Threw e \<Rightarrow> False)
      | Toggle t res \<Rightarrow> (case res of Returned r \<Rightarrow> error r = None | Threw e \<Rightarrow> False)
      | Delete taskId res \<Rightarrow> (case res of Returned r \<Rightarrow> r = None | Threw e \<Rightarrow> False))"

section \<open>Category Sidebar\<close>

text \<open>\<open>components/categories/CategorySidebar.tsx\<close> and the page that holds the selection.\<close>

record sidebar_form =
  sf_name :: string
  sf_color :: string
  sf_description :: string

record sidebar_state =
  categories :: "category list"
  sb_isLoading :: bool
  sb_isFormOpen :: bool
  editingCategory :: "category option"
  sb_formData :: sidebar_form

definition DEFAULT_COLORS :: "string list" where
  "DEFAULT_COLORS =
     [''#3B82F6'', ''#EF4444'', ''#10B981'', ''#F59E0B'', ''#8B5CF6'',
      ''#EC4899'', ''#06B6D4'', ''#84CC16'', ''#F97316'', ''#6B7280'']"

text \<open>The initial values of the component's \<open>useState\<close> calls.\<close>

definition sidebar_initial :: sidebar_state where
  "sidebar_initial =
     \<lparr>categories = [], sb_isLoading = True, sb_isFormOpen = False, editingCategory = None,
      sb_formData = \<lparr>sf_name = [], sf_color = DEFAULT_COLORS ! 0, sf_description = []\<rparr>\<rparr>"

text \<open>
  \<open>loadCategories\<close>, run by the mount effect when there is a user: the requests it
  issues and the state after it.
\<close>

definition loadCategories ::
  "sidebar_state \<Rightarrow> string option \<Rightarrow> category list dal_result outcome \<Rightarrow>
   dal_call list \<times> sidebar_state" where
  "loadCategories s user res =
     (case user of
        None \<Rightarrow> ([], s)
      | Some uid \<Rightarrow>
          ([Categories_getAll uid],
           (case res of
              Threw e \<Rightarrow> s\<lparr>sb_isLoading := False\<rparr>
            | Returned r \<Rightarrow>
                (case (error r, data r) of
                   (None, Some rows) \<Rightarrow> s\<lparr>categories := rows, sb_isLoading := False\<rparr>
                 | _ \<Rightarrow> s\<lparr>sb_isLoading := False\<rparr>))))"

text \<open>
  The text the component renders, in document order: the loading line, or the heading,
  the dialog when it is open, the \<open>All Tasks\<close> button, and for every category its name
  and its description if it has one; the empty-list hint when there is no category.
\<close>

definition sidebarText :: "sidebar_state \<Rightarrow> string list" where
  "sidebarText s =
     (if sb_isLoading s then [''Loading categories...'']
      else
        [''Categories''] @
        (if sb_isFormOpen s then
           [(if editingCategory s \<noteq> None then ''Edit Category'' else ''Create Category''),
            ''Name *'', ''Description'', ''Color'', ''Cancel'',
            (if editingCategory s \<noteq> None then ''Update'' else ''Create'')]
         else []) @
        [''All Tasks''] @
        concat (map (\<lambda>c. cat_name c #
           (case cat_description c of None \<Rightarrow> [] | Some d \<Rightarrow> if d = [] then [] else [d]))
           (categories s)) @
        (if length (categories s) = 0 then [''No categories yet'', ''Add Category''] else []))"

text \<open>
  \<open>handleDelete\<close>: the new state and the calls of \<open>onCategorySelect\<close> it makes;
  \<open>selected\<close> is the \<open>selectedCategoryId\<close> prop.
\<close>

definition handleDelete ::
  "sidebar_state \<Rightarrow> string option \<Rightarrow> string option \<Rightarrow> string \<Rightarrow> js_error option outcome \<Rightarrow>
   sidebar_state \<times> string option list" where
  "handleDelete s selected user categoryId res =
     (case user of
        None \<Rightarrow> (s, [])
      | Some uid \<Rightarrow>
          (case res of
             Threw e \<Rightarrow> (s, [])
           | Returned (Some e) \<Rightarrow> (s, [])
           | Returned None \<Rightarrow>
               (s\<lparr>categories := filter (\<lambda>c. cat_id c \<noteq> categoryId) (categories s)\<rparr>,
                (if selected = Some categoryId then [None] else []))))"

text \<open>\<open>DashboardPage\<close>: the active scope and the \<open>onCategorySelect\<close> it passes down.\<close>

record dashboard_state =
  selectedCategoryId :: "string option"
  isSidebarOpen :: bool

definition onCategorySelect :: "dashboard_state \<Rightarrow> string option \<Rightarrow> dashboard_state" where
  "onCategorySelect d categoryId = d\<lparr>selectedCategoryId := categoryId, isSidebarOpen := False\<rparr>"

definition deleteCategory ::
  "sidebar_state \<times> dashboard_state \<Rightarrow> string option \<Rightarrow> string \<Rightarrow> js_error option outcome \<Rightarrow>
   sidebar_state \<times> dashboard_state" where
  "deleteCategory sd user categoryId res =
     (let (s', selects) = handleDelete (fst sd) (selectedCategoryId (snd sd)) user categoryId res
      in (s', foldl onCategorySelect (snd sd) selects))"

section \<open>Orders and examples the properties are stated with\<close>

text \<open>
  Ascending by due timestamp, tasks without a due date after all tasks that have one:
  \<open>dueOrder a b\<close> says that \<open>a\<close> may stand before \<open>b\<close>.
\<close>

definition dueOrder :: "task \<Rightarrow> task \<Rightarrow> bool" where
  "dueOrder a b =
     (case due_date a of
        None \<Rightarrow> due_date b = None
      | Some ta \<Rightarrow> (case due_date b of None \<Rightarrow> True | Some tb \<Rightarrow> ta \<le> tb))"

text \<open>
  The rank a task is sorted by under \<open>priority\<close>, for the tasks that have one.
\<close>

definition priorityRank :: "task \<Rightarrow> int" where
  "priorityRank t = (case priority t of None \<Rightarrow> 0 | Some p \<Rightarrow> priorityOrder p)"










text \<open>A row for the closed examples: identifier, title, completion, due date, priority.\<close>

definition ex_task ::
  "string \<Rightarrow> string \<Rightarrow> bool \<Rightarrow> timestamp option \<Rightarrow> priority option \<Rightarrow> task" where
  "ex_task i ttl c d p =
     \<lparr>task_id = i, title = ttl, description = None, completed = c, due_date = d,
      reminder_date = None, priority = p, category_id = None, user_id = ''u1'',
      created_at = 0, updated_at = 0, completed_at = None\<rparr>"

definition ex_due_tasks :: "task list" where
  "ex_due_tasks =
     [ex_task ''1'' ''a'' False None None, ex_task ''2'' ''b'' False (Some 20) None,
      ex_task ''3'' ''c'' False None None, ex_task ''4'' ''d'' False (Some 10) None]"


definition ex_done :: task where
  "ex_done = (ex_task ''2'' ''Walk dog'' True None None)\<lparr>completed_at := Some 50\<rparr>"

definition ex_priority_tasks :: "task list" where
  "ex_priority_tasks =
     [ex_task ''1'' ''a'' False None (Some Low), ex_task ''2'' ''b'' False None None,
      ex_task ''3'' ''c'' False None (Some High)]"

definition ex_form :: form_data where
  "ex_form =
     \<lparr>fd_title = ''Pay rent'', fd_description = [], fd_category_id = [],
      fd_due_date = Some 1000, fd_reminder_date = Some 2000, fd_priority = Medium\<rparr>"

definition ex_categories :: "category list" where
  "ex_categories =
     [\<lparr>cat_id = ''cat1'', cat_name = ''Work'', cat_color = ''#3B82F6'',
       cat_description = None, cat_user_id = ''user1''\<rparr>,
      \<lparr>cat_id = ''cat2'', cat_name = ''Personal'', cat_color = ''#10B981'',
       cat_description = None, cat_user_id = ''user1''\<rparr>,
      \<lparr>cat_id = ''cat3'', cat_name = ''Shopping'', cat_color = ''#F59E0B'',
       cat_description = None, cat_user_id = ''user1''\<rparr>]"

definition ex_sidebar :: sidebar_state where
  "ex_sidebar = sidebar_initial\<lparr>categories := ex_categories, sb_isLoading := False\<rparr>"

definition ex_list :: task_list_state where
  "ex_list =
     \<lparr>tasks = [ex_task ''1'' ''Buy groceries'' False None None,
               ex_task ''2'' ''Walk dog'' True None None],
      editingTask = None\<rparr>"

section \<open>Properties of the derived view\<close>

lemma mset_insertBy: "mset (insertBy cmp x ys) = add_mset x (mset ys)"
  by (induction ys) simp_all

lemma mset_sortBy_cmp: "mset (sortBy_cmp cmp xs) = mset xs"
  by (induction xs) (simp_all add: mset_insertBy)

lemma mset_filteredAndSortedTasks:
  "mset (filteredAndSortedTasks lower ts searchTerm filterStatus sortBy) =
   filter_mset (filterTask lower searchTerm filterStatus) (mset ts)"
  by (simp add: filteredAndSortedTasks_def mset_sortBy_cmp)

lemma filterTask_no_search:
  "filterTask lower [] Status_pending = (\<lambda>t. \<not> completed t)"
  "filterTask lower [] Status_completed = (\<lambda>t. completed t)"
  "filterTask lower [] Status_all = (\<lambda>t. True)"
  by (rule ext, simp add: filterTask_def)+

lemma filterTask_status:
  "filterTask lower q Status_pending t \<longleftrightarrow> filterTask lower q Status_all t \<and> \<not> completed t"
  "filterTask lower q Status_completed t \<longleftrightarrow> filterTask lower q Status_all t \<and> completed t"
  by (auto simp: filterTask_def)

text \<open>
  C6. The status filter: \<open>pending\<close> keeps exactly the tasks that are not completed,
  \<open>completed\<close> exactly the completed ones, \<open>all\<close> every task (under any search term:
  of the tasks the search keeps); the pending and the completed results have no task in
  common and together are the result under \<open>all\<close>.
\<close>

theorem status_filter_partition:
  "mset (filteredAndSortedTasks lower ts [] Status_pending sortBy) =
     filter_mset (\<lambda>t. \<not> completed t) (mset ts) \<and>
   mset (filteredAndSortedTasks lower ts [] Status_completed sortBy) =
     filter_mset (\<lambda>t. completed t) (mset ts) \<and>
   mset (filteredAndSortedTasks lower ts [] Status_all sortBy) = mset ts \<and>
   mset (filteredAndSortedTasks lower ts q Status_pending sortBy) =
     filter_mset (\<lambda>t. \<not> completed t) (mset (filteredAndSortedTasks lower ts q Status_all sortBy)) \<and>
   mset (filteredAndSortedTasks lower ts q Status_completed sortBy) =
     filter_mset (\<lambda>t. completed t) (mset (filteredAndSortedTasks lower ts q Status_all sortBy)) \<and>
   set (filteredAndSortedTasks lower ts q Status_pending sortBy) \<inter>
     set (filteredAndSortedTasks lower ts q Status_completed sortBy) = {} \<and>
   mset (filteredAndSortedTasks lower ts q Status_pending sortBy) +
     mset (filteredAndSortedTasks lower ts q Status_completed sortBy) =
     mset (filteredAndSortedTasks lower ts q Status_all sortBy)"
proof -
  let ?all = "filteredAndSortedTasks lower ts q Status_all sortBy"
  let ?pen = "filteredAndSortedTasks lower ts q Status_pending sortBy"
  let ?com = "filteredAndSortedTasks lower ts q Status_completed sortBy"
  have p0: "mset (filteredAndSortedTasks lower ts [] Status_pending sortBy) =
      filter_mset (\<lambda>t. \<not> completed t) (mset ts)"
    by (simp add: mset_filteredAndSortedTasks filterTask_no_search)
  have c0: "mset (filteredAndSortedTasks lower ts [] Status_completed sortBy) =
      filter_mset (\<lambda>t. completed t) (mset ts)"
    by (simp add: mset_filteredAndSortedTasks filterTask_no_search)
  have a0: "mset (filteredAndSortedTasks lower ts [] Status_all sortBy) = mset ts"
    by (simp add: mset_filteredAndSortedTasks filterTask_no_search)
  have p: "mset ?pen = filter_mset (\<lambda>t. \<not> completed t) (mset ?all)"
    unfolding mset_filteredAndSortedTasks by (induction ts) (auto simp: filterTask_status)
  have c: "mset ?com = filter_mset (\<lambda>t. completed t) (mset ?all)"
    unfolding mset_filteredAndSortedTasks by (induction ts) (auto simp: filterTask_status)
  have sp: "set ?pen = {t \<in> set ?all. \<not> completed t}"
    using p by (metis set_mset_filter set_mset_mset)
  have sc: "set ?com = {t \<in> set ?all. completed t}"
    using c by (metis set_mset_filter set_mset_mset)
  have d: "set ?pen \<inter> set ?com = {}"
    unfolding sp sc by blast
  have u: "mset ?pen + mset ?com = mset ?all"
    unfolding p c by (induction "filteredAndSortedTasks lower ts q Status_all sortBy") simp_all
  from p0 c0 a0 p c d u show ?thesis by blast
qed

text \<open>
  The scenario of the specification: of \<open>Buy groceries\<close> (pending) and \<open>Walk dog\<close>
  (completed), the status \<open>pending\<close> shows exactly the first.
\<close>

lemma status_filter_scenario:
  "map title (filteredAndSortedTasks asciiLower (tasks ex_list) [] Status_pending By_created_at) =
     [''Buy groceries'']"
  by (simp add: filteredAndSortedTasks_def filterTask_def ex_list_def ex_task_def)

subsection \<open>Sorting\<close>

lemma set_insertBy: "set (insertBy cmp x ys) = insert x (set ys)"
  by (induction ys) auto

lemma sorted_insertBy:
  assumes tot: "\<And>a b. cmp a b \<le> 0 \<or> cmp b a \<le> 0"
    and tr: "\<And>a b c. cmp a b \<le> 0 \<Longrightarrow> cmp b c \<le> 0 \<Longrightarrow> cmp a c \<le> 0"
  shows "sorted_wrt (\<lambda>a b. cmp a b \<le> 0) ys \<Longrightarrow>
    sorted_wrt (\<lambda>a b. cmp a b \<le> 0) (insertBy cmp x ys)"
proof (induction ys)
  case Nil
  then show ?case by simp
next
  case (Cons y ys)
  show ?case
  proof (cases "cmp x y \<le> 0")
    case True
    then have "\<forall>z\<in>set ys. cmp x z \<le> 0" using Cons.prems tr by auto
    with True Cons.prems show ?thesis by simp
  next
    case False
    then have yx: "cmp y x \<le> 0" using tot by blast
    with False Cons show ?thesis by (auto simp: set_insertBy)
  qed
qed

lemma sorted_sortBy_cmp:
  assumes tot: "\<And>a b. cmp a b \<le> 0 \<or> cmp b a \<le> 0"
    and tr: "\<And>a b c. cmp a b \<le> 0 \<Longrightarrow> cmp b c \<le> 0 \<Longrightarrow> cmp a c \<le> 0"
  shows "sorted_wrt (\<lambda>a b. cmp a b \<le> 0) (sortBy_cmp cmp xs)"
  by (induction xs) (simp_all add: sorted_insertBy [OF tot tr])

lemma compare_due_date_le: "compareTasks By_due_date a b \<le> 0 \<longleftrightarrow> dueOrder a b"
  by (simp add: compareTasks_def dueOrder_def split: option.splits)

lemma dueOrder_total: "dueOrder a b \<or> dueOrder b a"
  by (auto simp: dueOrder_def split: option.splits)

lemma dueOrder_trans: "dueOrder a b \<Longrightarrow> dueOrder b c \<Longrightarrow> dueOrder a c"
  by (auto simp: dueOrder_def split: option.splits)

lemma sorted_due_date: "sorted_wrt dueOrder (sortBy_cmp (compareTasks By_due_date) xs)"
proof -
  have "sorted_wrt (\<lambda>a b. compareTasks By_due_date a b \<le> 0)
      (sortBy_cmp (compareTasks By_due_date) xs)"
  proof (rule sorted_sortBy_cmp)
    show "compareTasks By_due_date a b \<le> 0 \<or> compareTasks By_due_date b a \<le> 0" for a b
      using dueOrder_total [of a b] by (simp add: compare_due_date_le)
    show "compareTasks By_due_date a b \<le> 0 \<Longrightarrow> compareTasks By_due_date b c \<le> 0 \<Longrightarrow>
        compareTasks By_due_date a c \<le> 0" for a b c
      using dueOrder_trans [of a b c] by (simp add: compare_due_date_le)
  qed
  then show ?thesis by (simp add: compare_due_date_le)
qed

text \<open>
  C3. Sorting by due date: the view holds exactly the tasks the filter keeps, in ascending
  order of due timestamp with every task without a due date after every task that has
  one (\<open>dueOrder\<close>); so a task without a due date never stands before a task with one;
  and two tasks that both lack a due date compare equal.
\<close>

theorem due_date_sort:
  "mset (filteredAndSortedTasks lower ts searchTerm filterStatus By_due_date) =
     filter_mset (filterTask lower searchTerm filterStatus) (mset ts) \<and>
   sorted_wrt dueOrder (filteredAndSortedTasks lower ts searchTerm filterStatus By_due_date) \<and>
   (\<forall>i j. i < j \<and>
      j < length (filteredAndSortedTasks lower ts searchTerm filterStatus By_due_date) \<and>
      due_date (filteredAndSortedTasks lower ts searchTerm filterStatus By_due_date ! i) = None \<longrightarrow>
      due_date (filteredAndSortedTasks lower ts searchTerm filterStatus By_due_date ! j) = None) \<and>
   (\<forall>a b. due_date a = None \<and> due_date b = None \<longrightarrow> compareTasks By_due_date a b = 0)"
proof -
  let ?out = "filteredAndSortedTasks lower ts searchTerm filterStatus By_due_date"
  have m: "mset ?out = filter_mset (filterTask lower searchTerm filterStatus) (mset ts)"
    by (rule mset_filteredAndSortedTasks)
  have s: "sorted_wrt dueOrder ?out"
    by (simp add: filteredAndSortedTasks_def sorted_due_date)
  have n: "due_date (?out ! j) = None"
    if "i < j" "j < length ?out" "due_date (?out ! i) = None" for i j
  proof -
    from s that have "dueOrder (?out ! i) (?out ! j)"
      by (simp add: sorted_wrt_iff_nth_less)
    with that(3) show ?thesis by (simp add: dueOrder_def)
  qed
  have e: "compareTasks By_due_date a b = 0"
    if "due_date a = None \<and> due_date b = None" for a b
    using that by (simp add: compareTasks_def)
  from m s n e show ?thesis by blast
qed

lemma due_date_sort_example:
  "filteredAndSortedTasks asciiLower ex_due_tasks [] Status_all By_due_date =
   [ex_task ''4'' ''d'' False (Some 10) None, ex_task ''2'' ''b'' False (Some 20) None,
    ex_task ''1'' ''a'' False None None, ex_task ''3'' ''c'' False None None]"
  by (simp add: filteredAndSortedTasks_def filterTask_def compareTasks_def ex_task_def
      ex_due_tasks_def)

theorem due_date_sort_witness:
  "(2::nat) < 3 \<and>
   3 < length (filteredAndSortedTasks asciiLower ex_due_tasks [] Status_all By_due_date) \<and>
   due_date (filteredAndSortedTasks asciiLower ex_due_tasks [] Status_all By_due_date ! 2) = None \<and>
   due_date (filteredAndSortedTasks asciiLower ex_due_tasks [] Status_all By_due_date ! 3) = None \<and>
   sorted_wrt dueOrder (filteredAndSortedTasks asciiLower ex_due_tasks [] Status_all By_due_date)"
proof -
  let ?out = "filteredAndSortedTasks asciiLower ex_due_tasks [] Status_all By_due_date"
  have h: "(2::nat) < 3 \<and> 3 < length ?out \<and> due_date (?out ! 2) = None"
    unfolding due_date_sort_example by (simp add: ex_task_def)
  from due_date_sort [of asciiLower ex_due_tasks "[]" Status_all] h show ?thesis by blast
qed

subsection \<open>Sorting by priority\<close>

lemma sorted_priority_when_set:
  assumes "\<forall>t\<in>set xs. priority t \<noteq> None"
  shows "sorted_wrt (\<lambda>a b. priorityRank b \<le> priorityRank a)
    (sortBy_cmp (compareTasks By_priority) xs)"
proof -
  let ?c = "\<lambda>a b. priorityRank b - priorityRank a"
  have eq: "insertBy (compareTasks By_priority) x ys = insertBy ?c x ys"
    if "priority x \<noteq> None" "\<forall>t\<in>set ys. priority t \<noteq> None" for x ys
    using that by (induction ys) (auto simp: compareTasks_def priorityRank_def)
  have eqs: "sortBy_cmp (compareTasks By_priority) ys = sortBy_cmp ?c ys"
    if "\<forall>t\<in>set ys. priority t \<noteq> None" for ys
    using that
  proof (induction ys)
    case Nil
    then show ?case by simp
  next
    case (Cons y ys)
    then have "\<forall>t\<in>set (sortBy_cmp ?c ys). priority t \<noteq> None"
      by (metis list.set_intros(2) mset_sortBy_cmp set_mset_mset)
    with Cons show ?case by (simp add: eq)
  qed
  have "sorted_wrt (\<lambda>a b. ?c a b \<le> 0) (sortBy_cmp ?c xs)"
    by (rule sorted_sortBy_cmp) auto
  then show ?thesis using eqs [OF assms] by simp
qed

text \<open>
  Where every task of the list has a priority the view is in descending order of rank, so
  all high tasks stand before all medium tasks and these before all low tasks.
\<close>

lemma priority_sort_when_all_set:
  assumes "\<forall>t\<in>set ts. priority t \<noteq> None"
  shows "sorted_wrt (\<lambda>a b. priorityRank b \<le> priorityRank a)
    (filteredAndSortedTasks lower ts searchTerm filterStatus By_priority)"
  unfolding filteredAndSortedTasks_def
  by (rule sorted_priority_when_set) (use assms in simp)

text \<open>
  C4. Sorting by priority puts all high tasks before all medium ones and these before all
  low ones, for every input. The comparator answers \<open>NaN\<close> (read as equal) whenever one
  of the two tasks has no priority, so it is no ordering on such a list: on a low task,
  a task without priority and a high task, in this order, every neighbouring pair
  compares equal and the sort leaves the low task in front of the high one.
\<close>

theorem priority_sort_missing_priority:
  "filteredAndSortedTasks lower ex_priority_tasks [] Status_all By_priority = ex_priority_tasks \<and>
   priority (filteredAndSortedTasks lower ex_priority_tasks [] Status_all By_priority ! 0) = Some Low \<and>
   priority (filteredAndSortedTasks lower ex_priority_tasks [] Status_all By_priority ! 2) = Some High"
  by (simp add: filteredAndSortedTasks_def filterTask_def compareTasks_def ex_task_def
      ex_priority_tasks_def)

subsection \<open>The search filter\<close>



lemma str_includes_empty: "str_includes s []"
  by (induction s) simp_all






















section \<open>Properties of the Data Access Layer\<close>

lemma single_Some: "data (single rows) = Some r \<longleftrightarrow> rows = [r]"
  by (cases rows rule: list.exhaust; cases "tl rows") (auto simp: single_def split: list.splits)

lemma single_error: "error (single rows) = None \<longleftrightarrow> (\<exists>r. rows = [r])"
  by (auto simp: single_def split: list.splits)

lemma write_toggle_row:
  "write_toggle (toggleComplete_update c now1 now2) =
     (\<lambda>x. x\<lparr>completed := c, updated_at := now1,
        completed_at := (if c then Some now2 else None)\<rparr>)"
  by (rule ext) (simp add: write_toggle_def toggleComplete_update_def)

text \<open>
  C1. \<open>toggleComplete\<close> writes \<open>completed\<close>, \<open>updated_at\<close> and \<open>completed_at\<close>
  in one update, \<open>completed_at\<close> being the current time when toggling to true and null
  when toggling to false. Where the table holds one task \<open>t\<close> of the given identifier
  and owner and the service answers, the operation stores exactly that: the table with
  the three columns written on this task and every other row as it was, and it returns the
  written row. Whenever the operation returns a row, the row is such a written task, it
  is in the table, and its \<open>completed_at\<close> is non-null if and only if \<open>completed\<close> is
  true; when it returns no row it returns an error and the table is as it was. A table
  whose rows all have the property keeps it through any toggle.
\<close>

theorem toggleComplete_completed_at:
  "(filter (\<lambda>x. task_id x = tid \<and> user_id x = uid) table = [t] \<longrightarrow>
      toggleComplete table None tid c uid now1 now2 =
        (map (\<lambda>x. if task_id x = tid \<and> user_id x = uid
                  then x\<lparr>completed := c, updated_at := now1,
                         completed_at := (if c then Some now2 else None)\<rparr>
                  else x) table,
         \<lparr>data = Some (t\<lparr>completed := c, updated_at := now1,
                            completed_at := (if c then Some now2 else None)\<rparr>),
          error = None\<rparr>)) \<and>
   (\<forall>row. data (snd (toggleComplete table fault tid c uid now1 now2)) = Some row \<longrightarrow>
      fault = None \<and>
      (\<exists>r0. filter (\<lambda>x. task_id x = tid \<and> user_id x = uid) table = [r0] \<and>
         row = r0\<lparr>completed := c, updated_at := now1,
                  completed_at := (if c then Some now2 else None)\<rparr>) \<and>
      row \<in> set (fst (toggleComplete table fault tid c uid now1 now2)) \<and>
      task_id row = tid \<and> user_id row = uid \<and> completed row = c \<and> updated_at row = now1 \<and>
      completed_at row = (if c then Some now2 else None) \<and>
      (completed_at row \<noteq> None \<longleftrightarrow> completed row)) \<and>
   (data (snd (toggleComplete table fault tid c uid now1 now2)) = None \<longrightarrow>
      fst (toggleComplete table fault tid c uid now1 now2) = table \<and>
      error (snd (toggleComplete table fault tid c uid now1 now2)) \<noteq> None) \<and>
   ((\<forall>x\<in>set table. completed_at x \<noteq> None \<longleftrightarrow> completed x) \<longrightarrow>
    (\<forall>x\<in>set (fst (toggleComplete table fault tid c uid now1 now2)).
       completed_at x \<noteq> None \<longleftrightarrow> completed x))"
proof -
  let ?hit = "\<lambda>x. task_id x = tid \<and> user_id x = uid"
  let ?w = "\<lambda>x. x\<lparr>completed := c, updated_at := now1,
      completed_at := (if c then Some now2 else None)\<rparr>"
  have w: "completed (?w x) = c \<and> updated_at (?w x) = now1 \<and>
      completed_at (?w x) = (if c then Some now2 else None) \<and>
      task_id (?w x) = task_id x \<and> user_id (?w x) = user_id x" for x
    by simp
  have one: "toggleComplete table None tid c uid now1 now2 =
      (map (\<lambda>x. if ?hit x then ?w x else x) table, \<lparr>data = Some (?w r0), error = None\<rparr>)"
    if "filter ?hit table = [r0]" for r0
    using that by (simp add: toggleComplete_def Let_def write_toggle_row single_def)
  have r: "fault = None \<and> (\<exists>r0. filter ?hit table = [r0] \<and> row = ?w r0) \<and>
      row \<in> set (fst (toggleComplete table fault tid c uid now1 now2)) \<and>
      task_id row = tid \<and> user_id row = uid \<and> completed row = c \<and> updated_at row = now1 \<and>
      completed_at row = (if c then Some now2 else None) \<and>
      (completed_at row \<noteq> None \<longleftrightarrow> completed row)"
    if d: "data (snd (toggleComplete table fault tid c uid now1 now2)) = Some row" for row
  proof -
    have f: "fault = None"
      using d by (cases fault) (simp_all add: toggleComplete_def)
    with d have "map ?w (filter ?hit table) = [row]"
      by (simp add: toggleComplete_def Let_def single_Some write_toggle_row)
    then obtain r0 where r0: "filter ?hit table = [r0]" "row = ?w r0"
      by (auto simp: map_eq_Cons_conv)
    from r0(1) have "r0 \<in> set (filter ?hit table)" by simp
    then have h: "r0 \<in> set table" "?hit r0" by simp_all
    have "row \<in> set (map (\<lambda>x. if ?hit x then ?w x else x) table)"
      using h r0(2) by force
    then have "row \<in> set (fst (toggleComplete table fault tid c uid now1 now2))"
      using one [OF r0(1)] f by simp
    with f r0 h w [of r0] show ?thesis by auto
  qed
  have n: "fst (toggleComplete table fault tid c uid now1 now2) = table \<and>
      error (snd (toggleComplete table fault tid c uid now1 now2)) \<noteq> None"
    if "data (snd (toggleComplete table fault tid c uid now1 now2)) = None"
    using that
    by (cases fault)
      (auto simp: toggleComplete_def Let_def single_def split: list.splits)
  have i: "\<forall>x\<in>set (fst (toggleComplete table fault tid c uid now1 now2)).
      completed_at x \<noteq> None \<longleftrightarrow> completed x"
    if "\<forall>x\<in>set table. completed_at x \<noteq> None \<longleftrightarrow> completed x"
  proof (cases fault)
    case (Some e)
    with that show ?thesis by (simp add: toggleComplete_def)
  next
    case None
    have "completed_at (?w x) \<noteq> None \<longleftrightarrow> completed (?w x)" for x
      using w [of x] by simp
    with that None show ?thesis
      by (auto simp: toggleComplete_def Let_def write_toggle_row)
  qed
  from one r n i show ?thesis by blast
qed

theorem toggleComplete_witness:
  "toggleComplete [ex_task ''1'' ''a'' False None None, ex_done] None ''1'' True ''u1'' 100 101 =
     ([(ex_task ''1'' ''a'' False None None)
         \<lparr>completed := True, updated_at := 100, completed_at := Some 101\<rparr>, ex_done],
      \<lparr>data = Some ((ex_task ''1'' ''a'' False None None)
         \<lparr>completed := True, updated_at := 100, completed_at := Some 101\<rparr>),
       error = None\<rparr>) \<and>
   toggleComplete [ex_task ''1'' ''a'' False None None, ex_done] None ''2'' False ''u1'' 200 201 =
     ([ex_task ''1'' ''a'' False None None,
       ex_done\<lparr>completed := False, updated_at := 200, completed_at := None\<rparr>],
      \<lparr>data = Some (ex_done\<lparr>completed := False, updated_at := 200, completed_at := None\<rparr>),
       error = None\<rparr>)"
proof -
  let ?tb = "[ex_task ''1'' ''a'' False None None, ex_done]"
  have h1: "filter (\<lambda>x. task_id x = ''1'' \<and> user_id x = ''u1'') ?tb =
      [ex_task ''1'' ''a'' False None None]"
    by (simp add: ex_task_def ex_done_def)
  have h2: "filter (\<lambda>x. task_id x = ''2'' \<and> user_id x = ''u1'') ?tb = [ex_done]"
    by (simp add: ex_task_def ex_done_def)
  from toggleComplete_completed_at [of "''1''" "''u1''" ?tb
      "ex_task ''1'' ''a'' False None None" True 100 101] h1
  have a: "toggleComplete ?tb None ''1'' True ''u1'' 100 101 =
      (map (\<lambda>x. if task_id x = ''1'' \<and> user_id x = ''u1''
                then x\<lparr>completed := True, updated_at := 100,
                       completed_at := (if True then Some 101 else None)\<rparr>
                else x) ?tb,
       \<lparr>data = Some ((ex_task ''1'' ''a'' False None None)\<lparr>completed := True,
          updated_at := 100, completed_at := (if True then Some 101 else None)\<rparr>),
        error = None\<rparr>)"
    by blast
  from toggleComplete_completed_at [of "''2''" "''u1''" ?tb ex_done False 200 201] h2
  have b: "toggleComplete ?tb None ''2'' False ''u1'' 200 201 =
      (map (\<lambda>x. if task_id x = ''2'' \<and> user_id x = ''u1''
                then x\<lparr>completed := False, updated_at := 200,
                       completed_at := (if False then Some 201 else None)\<rparr>
                else x) ?tb,
       \<lparr>data = Some (ex_done\<lparr>completed := False, updated_at := 200,
          completed_at := (if False then Some 201 else None)\<rparr>),
        error = None\<rparr>)"
    by blast
  show ?thesis
    unfolding a b by (simp add: ex_task_def ex_done_def)
qed

lemma due_date_ascending_total: "due_date_ascending a b \<le> 0 \<or> due_date_ascending b a \<le> 0"
  by (auto simp: due_date_ascending_def split: option.splits)

lemma due_date_ascending_trans:
  "due_date_ascending a b \<le> 0 \<Longrightarrow> due_date_ascending b c \<le> 0 \<Longrightarrow>
   due_date_ascending a c \<le> 0"
  by (auto simp: due_date_ascending_def split: option.splits)

text \<open>
  What \<open>getUpcoming\<close> returns when the service answers: the owner's rows that are not
  completed and whose due date is set and not later than \<open>days\<close> days from now, in
  ascending order of due date. There is no lower bound on the due date.
\<close>

lemma getUpcoming_rows:
  "\<exists>rows. data (getUpcoming table None userId days now offsetChange) = Some rows \<and>
     mset rows = filter_mset
       (upcomingRow userId
          (futureDate now (case days of None \<Rightarrow> 7 | Some d \<Rightarrow> d) offsetChange))
       (mset table) \<and>
     sorted_wrt (\<lambda>a b. due_date_ascending a b \<le> 0) rows"
proof -
  have "sorted_wrt (\<lambda>a b. due_date_ascending a b \<le> 0) (sortBy_cmp due_date_ascending xs)"
    for xs
    by (rule sorted_sortBy_cmp)
      (use due_date_ascending_total due_date_ascending_trans in blast)+
  then show ?thesis by (simp add: getUpcoming_def mset_sortBy_cmp)
qed

text \<open>
  C7. The upcoming-tasks query returns exactly the owner's tasks that are not completed
  and are due within N days from now, soonest first. The query bounds the due date from
  above only: with the default of 7 days it returns a task that was due long before
  now (here \<open>1600000000000 < 1700000000000\<close>, more than three years earlier).
\<close>

theorem getUpcoming_returns_overdue:
  "data (getUpcoming [ex_task ''1'' ''Pay rent'' False (Some 1600000000000) None]
      None ''u1'' None 1700000000000 0) =
     Some [ex_task ''1'' ''Pay rent'' False (Some 1600000000000) None] \<and>
   due_date (ex_task ''1'' ''Pay rent'' False (Some 1600000000000) None) =
     Some 1600000000000 \<and>
   (1600000000000 :: int) < 1700000000000"
  by (simp add: getUpcoming_def upcomingRow_def futureDate_def ex_task_def)

section \<open>Properties of the Task Form\<close>

lemma validateForm_throws:
  "validateForm trim fd =
     Inl TypeError_filter"
  by (simp add: validateForm_def validateRequiredFields_def)

text \<open>
  With a user and no submission in flight, every submission ends in the \<open>TypeError\<close>
  of \<open>validateRequiredFields\<close>: no request is issued and no toast is shown.
\<close>

lemma handleSubmit_throws:
  "handleSubmit trim fd existing (Some uid) False res =
     Inl TypeError_filter"
  by (simp add: handleSubmit_def validateForm_throws)

text \<open>
  C8. A submission whose title is empty after trimming, or whose reminder is after its
  due date, issues no request and reports a validation error. The form \<open>ex_form\<close> has
  a title and a reminder (2000) after its due date (1000); \<open>handleSubmit\<close> throws the
  \<open>TypeError\<close> and reports nothing: no toast, no validation error.
\<close>

theorem handleSubmit_reminder_after_due_throws:
  "fd_due_date ex_form = Some 1000 \<and> fd_reminder_date ex_form = Some 2000 \<and>
   handleSubmit trim ex_form None (Some ''u1'') False
     (Returned \<lparr>data = None, error = None\<rparr>) =
     Inl TypeError_filter"
  by (simp add: handleSubmit_def validateForm_def validateRequiredFields_def ex_form_def)

section \<open>Properties of the Category Sidebar\<close>

text \<open>
  C9. The sidebar loads the categories and all tasks and shows a task count for every
  category and a total for \<open>All Tasks\<close>. On mount with the user \<open>user1\<close> and three
  categories the component issues \<open>categories.getAll\<close> and nothing else, and the text it
  renders is the heading, \<open>All Tasks\<close> and the three names: no count.
\<close>

theorem sidebar_shows_no_counts:
  "fst (loadCategories sidebar_initial (Some ''user1'')
      (Returned \<lparr>data = Some ex_categories, error = None\<rparr>)) = [Categories_getAll ''user1''] \<and>
   sidebarText (snd (loadCategories sidebar_initial (Some ''user1'')
      (Returned \<lparr>data = Some ex_categories, error = None\<rparr>))) =
     [''Categories'', ''All Tasks'', ''Work'', ''Personal'', ''Shopping'']"
  by (simp add: loadCategories_def sidebar_initial_def sidebarText_def ex_categories_def)

text \<open>
  C10. A successful delete removes exactly the categories with the given identifier from
  the list; \<open>onCategorySelect(undefined)\<close> is called if and only if that identifier is
  the selected scope, which resets the selection to \<open>All Tasks\<close>; with any other
  selection the page's state is unchanged.
\<close>

theorem handleDelete_selection:
  "fst (deleteCategory (s, d) (Some uid) categoryId (Returned None)) =
     s\<lparr>categories := filter (\<lambda>c. cat_id c \<noteq> categoryId) (categories s)\<rparr> \<and>
   (\<forall>c. c \<in> set (categories (fst (deleteCategory (s, d) (Some uid) categoryId (Returned None))))
      \<longleftrightarrow> c \<in> set (categories s) \<and> cat_id c \<noteq> categoryId) \<and>
   snd (handleDelete s (selectedCategoryId d) (Some uid) categoryId (Returned None)) =
     (if selectedCategoryId d = Some categoryId then [None] else []) \<and>
   (selectedCategoryId d = Some categoryId \<longrightarrow>
      selectedCategoryId (snd (deleteCategory (s, d) (Some uid) categoryId (Returned None))) =
        None) \<and>
   (selectedCategoryId d \<noteq> Some categoryId \<longrightarrow>
      snd (deleteCategory (s, d) (Some uid) categoryId (Returned None)) = d)"
  by (simp add: deleteCategory_def handleDelete_def onCategorySelect_def)

theorem handleDelete_selection_witness:
  "selectedCategoryId \<lparr>selectedCategoryId = Some ''cat1'', isSidebarOpen = True\<rparr> = Some ''cat1'' \<and>
   map cat_id (categories (fst (deleteCategory
      (ex_sidebar, \<lparr>selectedCategoryId = Some ''cat1'', isSidebarOpen = True\<rparr>)
      (Some ''user1'') ''cat1'' (Returned None)))) = [''cat2'', ''cat3''] \<and>
   selectedCategoryId (snd (deleteCategory
      (ex_sidebar, \<lparr>selectedCategoryId = Some ''cat1'', isSidebarOpen = True\<rparr>)
      (Some ''user1'') ''cat1'' (Returned None))) = None"
  using handleDelete_selection [of ex_sidebar
      "\<lparr>selectedCategoryId = Some ''cat1'', isSidebarOpen = True\<rparr>" "''user1''" "''cat1''"]
  by (simp add: ex_sidebar_def ex_categories_def sidebar_initial_def)

section \<open>Properties of the Task List Controller's actions\<close>

text \<open>
  C2, as stated, at a toggle: the service returns the row with \<open>completed\<close>,
  \<open>updated_at\<close> and \<open>completed_at\<close> written, and the list keeps its own row with
  only \<open>completed\<close> changed, which is not the returned row.
\<close>

theorem toggle_keeps_stale_row:
  "data (snd (toggleComplete (tasks ex_list) None ''1'' True ''u1'' 100 101)) =
     Some ((ex_task ''1'' ''Buy groceries'' False None None)
       \<lparr>completed := True, updated_at := 100, completed_at := Some 101\<rparr>) \<and>
   (perform ''u1'' ex_list (Toggle (ex_task ''1'' ''Buy groceries'' False None None)
     (Returned (snd (toggleComplete (tasks ex_list) None ''1'' True ''u1'' 100 101))))) =
     [(ex_task ''1'' ''Buy groceries'' False None None)\<lparr>completed := True\<rparr>,
      ex_task ''2'' ''Walk dog'' True None None] \<and>
   (perform ''u1'' ex_list (Toggle (ex_task ''1'' ''Buy groceries'' False None None)
     (Returned (snd (toggleComplete (tasks ex_list) None ''1'' True ''u1'' 100 101))))) \<noteq>
     map (\<lambda>t. if task_id t = ''1''
          then (ex_task ''1'' ''Buy groceries'' False None None)
            \<lparr>completed := True, updated_at := 100, completed_at := Some 101\<rparr>
          else t) (tasks ex_list)"
  by (simp add: perform_def itemToggle_def handleToggleComplete_def toggleComplete_def
      toggleComplete_update_def write_toggle_def single_def ex_list_def ex_task_def Let_def)

text \<open>
  C2, amended. On success, create prepends the returned row; update replaces every row
  that has the returned row's identifier by the returned row and leaves the others; toggle
  sets \<open>completed\<close> of the rows with the toggled task's identifier to the negation of
  that task's flag and leaves their other fields and all other rows; delete removes the rows
  with the identifier and keeps the others in order. An action that does not succeed
  leaves the list as it was.
\<close>

theorem list_reconciliation:
  "(editingTask s = None \<longrightarrow>
      (perform uid s (Save (Returned \<lparr>data = Some row, error = None\<rparr>))) = row # tasks s) \<and>
   (editingTask s \<noteq> None \<longrightarrow>
      (perform uid s (Save (Returned \<lparr>data = Some row, error = None\<rparr>))) =
        map (\<lambda>t. if task_id t = task_id row then row else t) (tasks s)) \<and>
   (perform uid s (Toggle x (Returned \<lparr>data = returned, error = None\<rparr>))) =
     map (\<lambda>t. if task_id t = task_id x then t\<lparr>completed := \<not> completed x\<rparr> else t) (tasks s) \<and>
   (perform uid s (Delete taskId (Returned None))) =
     filter (\<lambda>t. task_id t \<noteq> taskId) (tasks s) \<and>
   (\<not> succeeded a \<longrightarrow> (perform uid s a) = tasks s)"
proof -
  have c: "(perform uid s (Save (Returned \<lparr>data = Some row, error = None\<rparr>))) = row # tasks s"
    if "editingTask s = None"
    using that by (simp add: perform_def savedRow_def handleTaskSave_def)
  have u: "(perform uid s (Save (Returned \<lparr>data = Some row, error = None\<rparr>))) =
      map (\<lambda>t. if task_id t = task_id row then row else t) (tasks s)"
    if "editingTask s \<noteq> None"
    using that by (auto simp: perform_def savedRow_def handleTaskSave_def)
  have t: "(perform uid s (Toggle x (Returned \<lparr>data = returned, error = None\<rparr>))) =
      map (\<lambda>t. if task_id t = task_id x then t\<lparr>completed := \<not> completed x\<rparr> else t) (tasks s)"
    by (simp add: perform_def itemToggle_def handleToggleComplete_def)
  have d: "(perform uid s (Delete taskId (Returned None))) =
      filter (\<lambda>t. task_id t \<noteq> taskId) (tasks s)"
    by (simp add: perform_def handleTaskDelete_def)
  have f: "(perform uid s a) = tasks s" if "\<not> succeeded a"
  proof (cases a)
    case (Save res)
    with that show ?thesis
      by (auto simp: perform_def succeeded_def savedRow_def
          split: outcome.splits option.splits)
  next
    case (Toggle x res)
    with that show ?thesis
      by (auto simp: perform_def succeeded_def itemToggle_def split: outcome.splits)
  next
    case (Delete i res)
    with that show ?thesis
      by (auto simp: perform_def succeeded_def handleTaskDelete_def
          split: outcome.splits option.splits)
  qed
  from c u t d f show ?thesis by blast
qed

theorem list_reconciliation_witness:
  "editingTask ex_list = None \<and>
   (perform ''u1'' ex_list
     (Save (Returned \<lparr>data = Some (ex_task ''3'' ''New'' False None None), error = None\<rparr>))) =
     ex_task ''3'' ''New'' False None None # tasks ex_list \<and>
   \<not> succeeded (Delete ''1'' (Returned (Some (PostgrestError ''42501'' ''denied'')))) \<and>
   (perform ''u1'' ex_list
     (Delete ''1'' (Returned (Some (PostgrestError ''42501'' ''denied''))))) = tasks ex_list"
proof -
  have h: "editingTask ex_list = None \<and>
      \<not> succeeded (Delete ''1'' (Returned (Some (PostgrestError ''42501'' ''denied''))))"
    by (simp add: ex_list_def succeeded_def)
  from list_reconciliation [of ex_list "''u1''" "ex_task ''3'' ''New'' False None None" _ _ _
      "Delete ''1'' (Returned (Some (PostgrestError ''42501'' ''denied'')))"] h
  show ?thesis by blast
qed

end
